theory Spec2Isabelle
  imports Complex_Main "HOL-Library.Monad_Syntax"
begin

section \<open>Exceptions\<close>

text \<open>
  Python exceptions are values. \<open>exn\<close> holds instances of the class \<open>Exception\<close>:
  these are what an \<open>except Exception\<close> handler catches. \<open>str_exn\<close> is Python's
  \<open>str(e)\<close>.
\<close>

datatype exn =
    RuntimeError string
  | ZeroDivisionError
  | KeyError string
  | OtherException string

fun str_exn :: "exn \<Rightarrow> string" where
  "str_exn (RuntimeError m) = m"
| "str_exn ZeroDivisionError = ''float division by zero''"
| "str_exn (KeyError k) = [CHR 0x27] @ k @ [CHR 0x27]"
| "str_exn (OtherException m) = m"

text \<open>
  What a callable can raise: an instance of \<open>Exception\<close>, or one of the classes that
  derive from \<open>BaseException\<close> only, which an \<open>except Exception\<close> handler lets pass
  (\<open>asyncio.CancelledError\<close> when the task of a request is cancelled,
  \<open>KeyboardInterrupt\<close>, \<open>SystemExit\<close>).
\<close>

datatype base_exception = CancelledError | KeyboardInterrupt | SystemExit

datatype raised = Exception exn | BaseException base_exception

section \<open>Stats tracker (utils/performance.py)\<close>

text \<open>
  The module-level dictionary \<open>performance_stats\<close> has a fixed key set, so it is a
  record. Counters are Python integers; the average is a Python float, modelled by an
  exact rational.
\<close>

record performance_stats =
  total_requests :: int
  successful_requests :: int
  failed_requests :: int
  average_response_time :: rat
  cache_hits :: int
  cache_misses :: int

text \<open>The value the module binds at import time, and the one \<open>reset_performance_stats\<close> rebinds.\<close>

definition performance_stats_init :: performance_stats where
  "performance_stats_init =
     \<lparr> total_requests = 0, successful_requests = 0, failed_requests = 0,
       average_response_time = 0, cache_hits = 0, cache_misses = 0 \<rparr>"

definition reset_performance_stats :: "performance_stats \<Rightarrow> performance_stats" where
  "reset_performance_stats st =
     \<lparr> total_requests = 0, successful_requests = 0, failed_requests = 0,
       average_response_time = 0, cache_hits = 0, cache_misses = 0 \<rparr>"

text \<open>\<open>get_performance_stats\<close> returns a copy of the dictionary and leaves it unchanged.\<close>

definition get_performance_stats :: "performance_stats \<Rightarrow> performance_stats" where
  "get_performance_stats st = st"

text \<open>
  \<open>track_request\<close> (the asynchronous and the synchronous wrapper have the same body).
  The wrapped callable is given by its outcome (\<open>Inl x\<close>: it raised \<open>x\<close>; \<open>Inr r\<close>: it
  returned \<open>r\<close>) and by \<open>execution_time\<close>, the measured \<open>time.time() - start_time\<close>.
  The result is what the wrapper returns or raises, and the updated dictionary.
  \<open>total_requests\<close> is incremented before the \<open>try\<close> block. The only handler is
  \<open>except Exception\<close>: it counts the failure and re-raises; a raise outside
  \<open>Exception\<close> passes through it and leaves the other counters as they are. The
  division sits inside the \<open>try\<close> block, so a zero divisor raises \<open>ZeroDivisionError\<close>
  into the wrapper's own handler.
\<close>

definition track_request ::
  "raised + 'a \<Rightarrow> rat \<Rightarrow> performance_stats \<Rightarrow> (raised + 'a) \<times> performance_stats" where
  "track_request outcome execution_time st =
     (let st1 = st\<lparr>total_requests := total_requests st + 1\<rparr> in
      case outcome of
        Inl (BaseException b) \<Rightarrow> (Inl (BaseException b), st1)
      | Inl (Exception e) \<Rightarrow>
          (Inl (Exception e), st1\<lparr>failed_requests := failed_requests st1 + 1\<rparr>)
      | Inr result \<Rightarrow>
          (let st2 = st1\<lparr>successful_requests := successful_requests st1 + 1\<rparr>;
               total_successful = successful_requests st2;
               current_avg = average_response_time st2
           in if total_successful = 0
              then (Inl (Exception ZeroDivisionError),
                    st2\<lparr>failed_requests := failed_requests st2 + 1\<rparr>)
              else (Inr result,
                    st2\<lparr>average_response_time :=
                          (current_avg * of_int (total_successful - 1) + execution_time)
                            / of_int total_successful\<rparr>)))"

text \<open>The operations on the dictionary, and serialized runs of them.\<close>

datatype 'a stats_op =
    Tracked "raised + 'a" rat
  | GetStats
  | ResetStats

fun stats_step :: "'a stats_op \<Rightarrow> performance_stats \<Rightarrow> performance_stats" where
  "stats_step (Tracked outcome execution_time) st = snd (track_request outcome execution_time st)"
| "stats_step GetStats st = get_performance_stats st"
| "stats_step ResetStats st = reset_performance_stats st"

fun stats_run :: "'a stats_op list \<Rightarrow> performance_stats \<Rightarrow> performance_stats" where
  "stats_run [] st = st"
| "stats_run (op # ops) st = stats_run ops (stats_step op st)"

definition counts_add_up :: "performance_stats \<Rightarrow> bool" where
  "counts_add_up st \<longleftrightarrow>
     total_requests st = successful_requests st + failed_requests st"

text \<open>
  An operation other than a tracked call that ends with a raise outside \<open>Exception\<close>.
\<close>

fun counted_op :: "'a stats_op \<Rightarrow> bool" where
  "counted_op (Tracked (Inl (BaseException b)) execution_time) = False"
| "counted_op (Tracked (Inl (Exception e)) execution_time) = True"
| "counted_op (Tracked (Inr result) execution_time) = True"
| "counted_op GetStats = True"
| "counted_op ResetStats = True"



section \<open>Strings\<close>

text \<open>
  Python's \<open>str\<close> methods that the extractor uses. \<open>startswith s p\<close> is
  \<open>s.startswith(p)\<close>, \<open>has_substring s sub\<close> is \<open>sub in s\<close>, and \<open>py_replace s old new\<close>
  is \<open>s.replace(old, new)\<close>: occurrences of \<open>old\<close> are replaced from left to right
  without overlap (an empty \<open>old\<close> matches before every character and at the end).
\<close>

fun startswith :: "string \<Rightarrow> string \<Rightarrow> bool" where
  "startswith s [] = True"
| "startswith [] (p # ps) = False"
| "startswith (c # cs) (p # ps) = (c = p \<and> startswith cs ps)"

fun has_substring :: "string \<Rightarrow> string \<Rightarrow> bool" where
  "has_substring [] sub = (sub = [])"
| "has_substring (c # cs) sub = (startswith (c # cs) sub \<or> has_substring cs sub)"

function py_replace :: "string \<Rightarrow> string \<Rightarrow> string \<Rightarrow> string" where
  "py_replace [] old new = (if old = [] then new else [])"
| "py_replace (c # cs) old new =
     (if old = [] then new @ c # py_replace cs old new
      else if startswith (c # cs) old
        then new @ py_replace (drop (length old) (c # cs)) old new
      else c # py_replace cs old new)"
  by pat_completeness auto
termination
  by (relation "measure (\<lambda>(s, old, new). length s)") auto

text \<open>
  \<open>str.strip()\<close>: whitespace is removed at both ends. The characters are those below
  256 for which Python's \<open>str.isspace\<close> holds.
\<close>

definition is_space :: "char \<Rightarrow> bool" where
  "is_space c \<longleftrightarrow>
     (of_char c :: nat) \<in> set [9, 10, 11, 12, 13, 28, 29, 30, 31, 32, 133, 160]"

definition strip :: "string \<Rightarrow> string" where
  "strip s = rev (dropWhile is_space (rev (dropWhile is_space s)))"

text \<open>\<open>str(n)\<close> for a natural number, in decimal; \<open>digit_char\<close> is applied to digits below 10 only.\<close>

definition digit_char :: "nat \<Rightarrow> char" where
  "digit_char d = ''0123456789'' ! d"

fun str_nat :: "nat \<Rightarrow> string" where
  "str_nat n = (if n < 10 then [digit_char n] else str_nat (n div 10) @ [digit_char (n mod 10)])"

declare str_nat.simps [simp del]

text \<open>
  The flag token transform, applied to the \<open>class\<close> attribute of a team's flag node in
  \<open>_process_live_match_optimized\<close> and in \<open>_process_live_match\<close>:
  \<open>.replace(" mod-", "").replace("16", "_")\<close>.
\<close>

definition flag_transform :: "string \<Rightarrow> string" where
  "flag_transform cls = py_replace (py_replace cls '' mod-'' '''') ''16'' ''_''"

section \<open>Dictionaries of strings\<close>

text \<open>
  A match record is a Python \<open>dict\<close> from field names to strings whose key set
  grows (the annotation keys), so it is an association list in insertion order with
  unique keys. \<open>dict_set d k v\<close> is \<open>d[k] = v\<close>, \<open>dict_getitem d k\<close> is \<open>d[k]\<close>, and
  \<open>dict_update d kvs\<close> is \<open>d.update({...})\<close>.
\<close>

type_synonym dict = "(string \<times> string) list"

fun dict_set :: "dict \<Rightarrow> string \<Rightarrow> string \<Rightarrow> dict" where
  "dict_set [] k v = [(k, v)]"
| "dict_set ((k', v') # d) k v =
     (if k' = k then (k', v) # d else (k', v') # dict_set d k v)"

definition dict_getitem :: "dict \<Rightarrow> string \<Rightarrow> exn + string" where
  "dict_getitem d k = (case map_of d k of None \<Rightarrow> Inl (KeyError k) | Some v \<Rightarrow> Inr v)"

fun dict_update :: "dict \<Rightarrow> (string \<times> string) list \<Rightarrow> dict" where
  "dict_update d [] = d"
| "dict_update d ((k, v) # kvs) = dict_update (dict_set d k v) kvs"

section \<open>Cache (api/async_client.py)\<close>

text \<open>
  \<open>datetime.now()\<close> has microsecond resolution: a \<open>datetime\<close> is the number of
  microseconds since the epoch and a \<open>timedelta\<close> a number of microseconds.
\<close>

type_synonym datetime = int

definition timedelta_seconds :: "int \<Rightarrow> int" where
  "timedelta_seconds n = n * 1000000"

text \<open>
  A cache entry is the dictionary \<open>{'data': ..., 'timestamp': ...}\<close>; its fields are
  read with \<open>.get\<close>, which gives \<open>None\<close> for a missing key.
\<close>

record 'a cache_entry =
  entry_data :: "'a option"
  entry_timestamp :: "datetime option"

text \<open>
  The client object: the aiohttp session (\<open>None\<close> until \<open>__aenter__\<close> creates one) and
  the cache dictionary \<open>_cache\<close>. The payload type is a parameter.
\<close>

datatype ClientSession = ClientSession

record 'a VlrClient =
  session :: "ClientSession option"
  cache :: "string \<Rightarrow> 'a cache_entry option"

definition cache_ttl :: int where
  "cache_ttl = 30"

definition VlrClient_init :: "'a VlrClient" where
  "VlrClient_init = \<lparr> session = None, cache = Map.empty \<rparr>"

definition aenter :: "'a VlrClient \<Rightarrow> 'a VlrClient" where
  "aenter self = self\<lparr>session := Some ClientSession\<rparr>"

text \<open>\<open>__aexit__\<close> closes the session; the attribute keeps the session object.\<close>

definition aexit :: "'a VlrClient \<Rightarrow> 'a VlrClient" where
  "aexit self = self"

text \<open>
  \<open>_is_cache_valid\<close>, \<open>_get_from_cache\<close> and \<open>_set_cache\<close>. The current time is an
  argument. A \<open>datetime\<close> object is always truthy, so \<open>not cache_time\<close> holds only for
  a missing timestamp.
\<close>

definition is_cache_valid :: "'a VlrClient \<Rightarrow> string \<Rightarrow> datetime \<Rightarrow> bool" where
  "is_cache_valid self key now =
     (case cache self key of
        None \<Rightarrow> False
      | Some entry \<Rightarrow>
          (case entry_timestamp entry of
             None \<Rightarrow> False
           | Some cache_time \<Rightarrow> now - cache_time < timedelta_seconds cache_ttl))"

definition get_from_cache :: "'a VlrClient \<Rightarrow> string \<Rightarrow> datetime \<Rightarrow> 'a option" where
  "get_from_cache self key now =
     (if is_cache_valid self key now
      then (case cache self key of None \<Rightarrow> None | Some entry \<Rightarrow> entry_data entry)
      else None)"

definition set_cache :: "'a VlrClient \<Rightarrow> string \<Rightarrow> 'a \<Rightarrow> datetime \<Rightarrow> 'a VlrClient" where
  "set_cache self key payload now =
     self\<lparr>cache := (cache self)(key \<mapsto> \<lparr> entry_data = Some payload, entry_timestamp = Some now \<rparr>)\<rparr>"

section \<open>Fetcher (api/async_client.py)\<close>

text \<open>
  One attempt of \<open>session.get(url)\<close> either gives a response (status and body text)
  or raises one of the two exceptions \<open>_make_request\<close> handles.
\<close>

datatype attempt =
    Response int string
  | RaisesTimeoutError
  | RaisesClientError

text \<open>
  What the fetcher does that is visible from outside: the requests it issues (by attempt
  index) and its calls of \<open>asyncio.sleep\<close> (in seconds), in order.
\<close>

datatype event = Request int | Sleep int

text \<open>The sleep after the \<open>try\<close> block: \<open>if attempt < max_retries - 1\<close>.\<close>

definition backoff :: "int \<Rightarrow> int \<Rightarrow> event list" where
  "backoff max_retries attempt =
     (if attempt < max_retries - 1 then [Sleep (2 ^ nat attempt)] else [])"

text \<open>
  The loop \<open>for attempt in range(max_retries)\<close> of \<open>_make_request\<close>, from index
  \<open>attempt\<close> on; \<open>get i\<close> is the outcome of attempt \<open>i\<close>. The result is the events in
  order and the returned text, \<open>None\<close> when the attempts are used up.
\<close>

function make_request_loop ::
  "(int \<Rightarrow> attempt) \<Rightarrow> int \<Rightarrow> int \<Rightarrow> event list \<Rightarrow> event list \<times> string option" where
  "make_request_loop get max_retries attempt evs =
     (if attempt < max_retries then
        (case get attempt of
           Response status text \<Rightarrow>
             (if status = 200 then (evs @ [Request attempt], Some text)
              else if status = 429 then
                make_request_loop get max_retries (attempt + 1)
                  (evs @ [Request attempt, Sleep (2 ^ nat attempt)] @ backoff max_retries attempt)
              else
                make_request_loop get max_retries (attempt + 1)
                  (evs @ [Request attempt] @ backoff max_retries attempt))
         | RaisesTimeoutError \<Rightarrow>
             make_request_loop get max_retries (attempt + 1)
               (evs @ [Request attempt] @ backoff max_retries attempt)
         | RaisesClientError \<Rightarrow>
             make_request_loop get max_retries (attempt + 1)
               (evs @ [Request attempt] @ backoff max_retries attempt))
      else (evs, None))"
  by pat_completeness auto
termination
  by (relation "measure (\<lambda>(get, max_retries, attempt, evs). nat (max_retries - attempt))") auto

declare make_request_loop.simps [simp del]

text \<open>
  \<open>_make_request\<close>: raises \<open>RuntimeError\<close> without a session, otherwise runs the loop
  from attempt 0.
\<close>

definition make_request ::
  "'a VlrClient \<Rightarrow> (int \<Rightarrow> attempt) \<Rightarrow> int \<Rightarrow> event list \<times> (exn + string option)" where
  "make_request self get max_retries =
     (case session self of
        None \<Rightarrow> ([], Inl (RuntimeError ''Session not initialized. Use async context manager.''))
      | Some s \<Rightarrow>
          (case make_request_loop get max_retries 0 [] of (evs, r) \<Rightarrow> (evs, Inr r)))"

text \<open>
  What the callers of \<open>_make_request\<close> take for a failed fetch: an exception, or a
  result for which \<open>not html_content\<close> holds (\<open>None\<close> or the empty text).
\<close>

definition fetch_failed :: "exn + string option \<Rightarrow> bool" where
  "fetch_failed r = (case r of Inl e \<Rightarrow> True | Inr None \<Rightarrow> True | Inr (Some text) \<Rightarrow> text = [])"

section \<open>Extractor (api/async_scraper.py, api/async_client.py)\<close>

text \<open>
  The page parser (selectolax) is a library. A parsed document is given by the results of the
  selector queries the code makes on it.

  For one \<open>.h-match-team\<close> node: the text of its first \<open>.h-match-team-name\<close>,
  the \<open>class\<close> attribute of its first \<open>.flag\<close> and the text of its first
  \<open>.h-match-team-score\<close> (\<open>None\<close> when \<open>css_first\<close> finds no node), and the texts of
  the nodes under \<open>.h-match-team-rounds\<close> of class \<open>mod-ct\<close> and \<open>mod-t\<close>.
\<close>

record team_element =
  team_name :: "string option"
  flag_class :: "string option"
  team_score :: "string option"
  rounds_ct :: "string list"
  rounds_t :: "string list"

text \<open>
  For one \<open>a.wf-module-item\<close> anchor of the listing: whether it has a
  \<open>.h-match-eta.mod-live\<close> node, its \<open>.h-match-team\<close> nodes, the texts of
  \<open>.h-match-preview-event\<close> and \<open>.h-match-preview-series\<close>, the \<open>data-utc-ts\<close>
  attribute of \<open>.moment-tz-convert\<close>, and its own \<open>href\<close> (\<open>None\<close> where the node
  or the attribute is missing).
\<close>

record match_element =
  eta_live :: bool
  teams :: "team_element list"
  preview_event :: "string option"
  preview_series :: "string option"
  data_utc_ts :: "string option"
  href :: "string option"

text \<open>
  For a match page: the \<open>src\<close> of every \<open>.match-header-vs img\<close> (an attribute can be
  missing, present without a value, or have a value), and the map tab that is both
  active and live: \<open>None\<close> without such a tab, \<open>Some None\<close> for a tab without a
  \<open>div\<close>, \<open>Some (Some t)\<close> for a tab whose first \<open>div\<close> has text \<open>t\<close>.
\<close>

datatype attribute = Missing | NoValue | Value string

record detail_page =
  header_imgs :: "attribute list"
  live_map_tab :: "string option option"

text \<open>
  The outside world of one call: \<open>http_get url i\<close> is the outcome of attempt \<open>i\<close> of a
  request for \<open>url\<close>; \<open>parse_listing\<close> and \<open>parse_detail\<close> are the parser on the
  listing page and on a match page; \<open>utc_strftime s\<close> is
  \<open>datetime.fromtimestamp(int(s), tz=timezone.utc).strftime("%Y-%m-%d %H:%M:%S")\<close>,
  \<open>None\<close> when it raises.
\<close>

record world =
  http_get :: "string \<Rightarrow> int \<Rightarrow> attempt"
  parse_listing :: "string \<Rightarrow> match_element list"
  parse_detail :: "string \<Rightarrow> detail_page"
  utc_strftime :: "string \<Rightarrow> string option"

text \<open>
  The logo list of \<open>_get_match_details\<close>: \<open>"https:" + img.attributes.get("src", "")\<close>
  for every image. A \<open>src\<close> without a value is \<open>None\<close>, and the concatenation raises
  \<open>TypeError\<close>: the result is \<open>None\<close> then.
\<close>

fun logo_urls :: "attribute list \<Rightarrow> string list option" where
  "logo_urls [] = Some []"
| "logo_urls (Missing # imgs) = map_option (\<lambda>urls. (''https:'' @ '''') # urls) (logo_urls imgs)"
| "logo_urls (NoValue # imgs) = None"
| "logo_urls (Value src # imgs) = map_option (\<lambda>urls. (''https:'' @ src) # urls) (logo_urls imgs)"

text \<open>
  \<open>_get_match_details\<close>. Every exception inside is caught and gives
  \<open>([], "Unknown", "Unknown")\<close>, as an empty or failed fetch does. When the page has an
  active live map tab, the code reads the text of its first \<open>div\<close> (an
  \<open>AttributeError\<close> on the default string when there is none) and then calls \<open>re.sub\<close>;
  \<open>api/async_client.py\<close> does not import \<open>re\<close> at module level, so that call raises
  \<open>NameError\<close>, which the handler catches as well.
\<close>

definition get_match_details ::
  "'a VlrClient \<Rightarrow> world \<Rightarrow> string \<Rightarrow> string list \<times> string \<times> string" where
  "get_match_details self w url_path =
     (case snd (make_request self (http_get w url_path) 3) of
        Inl e \<Rightarrow> ([], ''Unknown'', ''Unknown'')
      | Inr None \<Rightarrow> ([], ''Unknown'', ''Unknown'')
      | Inr (Some html_content) \<Rightarrow>
          if html_content = [] then ([], ''Unknown'', ''Unknown'')
          else
            (case logo_urls (header_imgs (parse_detail w html_content)) of
               None \<Rightarrow> ([], ''Unknown'', ''Unknown'')
             | Some team_logos \<Rightarrow>
                 (case live_map_tab (parse_detail w html_content) of
                    None \<Rightarrow> (team_logos, ''Unknown'', ''Unknown'')
                  | Some None \<Rightarrow> ([], ''Unknown'', ''Unknown'')
                  | Some (Some map_text) \<Rightarrow> ([], ''Unknown'', ''Unknown''))))"

text \<open>
  The body of the loop over the team nodes in \<open>_process_live_match_optimized\<close>: name,
  flag, score and the two round texts of one team; \<open>None\<close> when \<open>css_first\<close> found no
  node and the attribute access raises.
\<close>

definition team_fields :: "team_element \<Rightarrow> (string \<times> string \<times> string \<times> string \<times> string) option" where
  "team_fields team =
     do {
       name \<leftarrow> team_name team;
       cls \<leftarrow> flag_class team;
       score \<leftarrow> team_score team;
       let round_text_ct = (case rounds_ct team of [] \<Rightarrow> ''N/A'' | r # rs \<Rightarrow> strip r);
       let round_text_t = (case rounds_t team of [] \<Rightarrow> ''N/A'' | r # rs \<Rightarrow> strip r);
       Some (strip name, flag_transform cls, strip score, round_text_ct, round_text_t)
     }"

text \<open>
  The first part of \<open>_process_live_match_optimized\<close>, up to the base \<open>match_data\<close>:
  the page address and the record, or \<open>None\<close> when any step raises (a missing node or
  attribute, a timestamp that does not convert, fewer than two teams). With two teams
  present the round texts of both exist, so their \<open>"N/A"\<close> alternatives for a short
  \<open>round_texts\<close> are not taken.
\<close>

definition extract_match_data :: "world \<Rightarrow> match_element \<Rightarrow> (string \<times> dict) option" where
  "extract_match_data w match_el =
     do {
       rows \<leftarrow> those (map team_fields (teams match_el));
       match_event \<leftarrow> map_option strip (preview_event match_el);
       match_series \<leftarrow> map_option strip (preview_series match_el);
       ts \<leftarrow> data_utc_ts match_el;
       timestamp \<leftarrow> utc_strftime w ts;
       h \<leftarrow> href match_el;
       let url_path = ''https://www.vlr.gg/'' @ h;
       (case rows of
          (team1, flag1, score1, ct1, t1) # (team2, flag2, score2, ct2, t2) # others \<Rightarrow>
            Some (url_path,
              [(''team1'', team1), (''team2'', team2),
               (''flag1'', flag1), (''flag2'', flag2),
               (''score1'', score1), (''score2'', score2),
               (''team1_round_ct'', ct1), (''team1_round_t'', t1),
               (''team2_round_ct'', ct2), (''team2_round_t'', t2),
               (''time_until_match'', ''LIVE''),
               (''match_event'', match_event), (''match_series'', match_series),
               (''unix_timestamp'', timestamp), (''match_page'', url_path),
               (''team1_logo'', ''''), (''team2_logo'', ''''),
               (''map_number'', ''Unknown''), (''current_map'', ''Unknown'')])
        | _ \<Rightarrow> None)
     }"

text \<open>
  \<open>_process_live_match_optimized\<close>: the empty dictionary when the extraction raises,
  otherwise the base record updated with the details. \<open>_get_match_details\<close> never
  raises, so the inner handler is not reached.
\<close>

definition process_live_match_optimized :: "'a VlrClient \<Rightarrow> world \<Rightarrow> match_element \<Rightarrow> dict" where
  "process_live_match_optimized self w match_el =
     (case extract_match_data w match_el of
        None \<Rightarrow> []
      | Some (url_path, match_data) \<Rightarrow>
          (case get_match_details self w url_path of
             (team_logos, current_map, map_number) \<Rightarrow>
               dict_update match_data
                 [(''team1_logo'', (if 0 < length team_logos then team_logos ! 0 else '''')),
                  (''team2_logo'', (if 1 < length team_logos then team_logos ! 1 else '''')),
                  (''map_number'', map_number),
                  (''current_map'', current_map)]))"

section \<open>Aggregator (api/async_scraper.py, api/async_client.py)\<close>

text \<open>
  The result dictionaries \<open>{"status": ..., "message": ..., "data": [...]}\<close>: the key
  \<open>status\<close> is always there, \<open>message\<close> and \<open>data\<close> may be missing.
\<close>

record envelope =
  status :: string
  message :: "string option"
  data :: "dict list option"

text \<open>The record returned when no match is live.\<close>

definition no_game_match :: dict where
  "no_game_match =
     [(''team1'', ''''), (''team2'', ''''),
      (''flag1'', ''''), (''flag2'', ''''),
      (''score1'', ''''), (''score2'', ''''),
      (''team1_round_ct'', ''''), (''team1_round_t'', ''''),
      (''team2_round_ct'', ''''), (''team2_round_t'', ''''),
      (''time_until_match'', ''''),
      (''match_event'', ''''), (''match_series'', ''''),
      (''unix_timestamp'', ''''), (''match_page'', ''''),
      (''team1_logo'', ''''), (''team2_logo'', ''''),
      (''map_number'', ''''), (''current_map'', ''''),
      (''klurgecustom'', ''no game is live'')]"

text \<open>
  The annotation loop \<open>for idx, match in enumerate(valid_results)\<close>, from index \<open>idx\<close>
  on. Reading a missing key raises \<open>KeyError\<close>.
\<close>

definition key_name :: "nat \<Rightarrow> string" where
  "key_name idx = (if 0 < idx then ''klurgecustom'' @ str_nat (idx + 1) else ''klurgecustom'')"

definition custom_tag :: "dict \<Rightarrow> exn + string" where
  "custom_tag match_rec =
     (case dict_getitem match_rec ''team1'' of Inl e \<Rightarrow> Inl e | Inr team1 \<Rightarrow>
      case dict_getitem match_rec ''score1'' of Inl e \<Rightarrow> Inl e | Inr score1 \<Rightarrow>
      case dict_getitem match_rec ''team2'' of Inl e \<Rightarrow> Inl e | Inr team2 \<Rightarrow>
      case dict_getitem match_rec ''score2'' of Inl e \<Rightarrow> Inl e | Inr score2 \<Rightarrow>
        Inr (team1 @ '' '' @ score1 @ '' : '' @ team2 @ '' '' @ score2))"

fun add_custom_tags :: "nat \<Rightarrow> dict list \<Rightarrow> exn + dict list" where
  "add_custom_tags idx [] = Inr []"
| "add_custom_tags idx (match_rec # rest) =
     (case custom_tag match_rec of
        Inl e \<Rightarrow> Inl e
      | Inr tag \<Rightarrow>
          (case add_custom_tags (idx + 1) rest of
             Inl e \<Rightarrow> Inl e
           | Inr rest' \<Rightarrow> Inr (dict_set match_rec (key_name idx) tag # rest')))"

text \<open>
  The records that \<open>asyncio.gather\<close> collects for the live matches, in listing order,
  without the empty ones: \<open>[r for r in results if isinstance(r, dict) and r]\<close>. Every
  task returns a dictionary.
\<close>

definition valid_results :: "'a VlrClient \<Rightarrow> world \<Rightarrow> match_element list \<Rightarrow> dict list" where
  "valid_results self w live_matches =
     filter (\<lambda>r. r \<noteq> []) (map (process_live_match_optimized self w) live_matches)"

text \<open>
  \<open>get_live_matches_optimized\<close>. An exception (of \<open>_make_request\<close>, of the annotation)
  becomes an error result with its text; a fetch without text (\<open>None\<close> or the empty
  string) becomes the error result "Failed to fetch live matches".
\<close>

definition get_live_matches_optimized :: "'a VlrClient \<Rightarrow> world \<Rightarrow> envelope" where
  "get_live_matches_optimized self w =
     (case snd (make_request self (http_get w ''https://www.vlr.gg'') 3) of
        Inl e \<Rightarrow> \<lparr> status = ''error'', message = Some (str_exn e), data = None \<rparr>
      | Inr None \<Rightarrow>
          \<lparr> status = ''error'', message = Some ''Failed to fetch live matches'', data = None \<rparr>
      | Inr (Some html_content) \<Rightarrow>
          if html_content = [] then
            \<lparr> status = ''error'', message = Some ''Failed to fetch live matches'', data = None \<rparr>
          else
            (let matches = parse_listing w html_content;
                 live_matches = filter eta_live matches
             in if live_matches = [] then
                  \<lparr> status = ''success'', message = None, data = Some [no_game_match] \<rparr>
                else
                  (case add_custom_tags 0 (valid_results self w live_matches) of
                     Inl e \<Rightarrow> \<lparr> status = ''error'', message = Some (str_exn e), data = None \<rparr>
                   | Inr tagged \<Rightarrow>
                       \<lparr> status = ''success'', message = None, data = Some tagged \<rparr>)))"

text \<open>
  \<open>VlrClient.get_live_matches\<close>, with the two readings of the clock as arguments:
  \<open>now_read\<close> when the cache is looked up, \<open>now_write\<close> when the result is stored.
  A result dictionary always has the key \<open>status\<close>, so a cached one is truthy. The
  scraper returns a result on every path, which is then stored and returned; the
  handler of this method is not reached.
\<close>

definition VlrClient_get_live_matches ::
  "envelope VlrClient \<Rightarrow> world \<Rightarrow> datetime \<Rightarrow> datetime \<Rightarrow> envelope \<times> envelope VlrClient" where
  "VlrClient_get_live_matches self w now_read now_write =
     (case get_from_cache self ''live_matches'' now_read of
        Some cached_data \<Rightarrow> (cached_data, self)
      | None \<Rightarrow>
          (let result = get_live_matches_optimized self w
           in (result, set_cache self ''live_matches'' result now_write)))"

section \<open>Live-matches endpoint (routers/vlr_router.py)\<close>

text \<open>
  \<open>get_vlr_client\<close> returns the global client, creating it on first use.
\<close>

definition get_vlr_client :: "'a VlrClient option \<Rightarrow> 'a VlrClient" where
  "get_vlr_client global_client =
     (case global_client of None \<Rightarrow> VlrClient_init | Some client \<Rightarrow> client)"

text \<open>
  The handler of \<open>GET /matches/live\<close> (inside \<open>track_request\<close>): it enters the client,
  asks it for the live matches and replaces a result without a non-empty \<open>data\<close> by a
  fixed success result. The value is the response and the global client afterwards.
\<close>

definition router_get_live_matches ::
  "envelope VlrClient option \<Rightarrow> world \<Rightarrow> datetime \<Rightarrow> datetime
     \<Rightarrow> envelope \<times> envelope VlrClient option" where
  "router_get_live_matches global_client w now_read now_write =
     (case VlrClient_get_live_matches (aenter (get_vlr_client global_client)) w now_read now_write of
        (result, client) \<Rightarrow>
          ((if data result = None \<or> data result = Some []
            then \<lparr> status = ''success'',
                   message = Some ''No live matches currently available.'',
                   data = Some [] \<rparr>
            else result),
           Some (aexit client)))"

section \<open>Concrete sites\<close>

text \<open>
  A listing with three live matches and one upcoming match, used to evaluate the
  functions above. Match A is complete, but its page cannot be fetched; match B has a
  single team node, so its extraction raises; match C is complete and its page has two
  logos and no live map tab.
\<close>

definition match_a :: match_element where
  "match_a =
     \<lparr> eta_live = True,
       teams =
         [\<lparr> team_name = Some '' Alpha '', flag_class = Some ''flag mod-16 mod-us'',
            team_score = Some ''1'', rounds_ct = [''7''], rounds_t = [] \<rparr>,
          \<lparr> team_name = Some ''Bravo'', flag_class = Some ''flag mod-16 mod-de'',
            team_score = Some ''0'', rounds_ct = [], rounds_t = [''5''] \<rparr>],
       preview_event = Some ''Cup'', preview_series = Some ''Final'',
       data_utc_ts = Some ''1700000000'', href = Some ''/100/alpha-vs-bravo'' \<rparr>"

definition match_b :: match_element where
  "match_b =
     \<lparr> eta_live = True,
       teams =
         [\<lparr> team_name = Some ''Solo'', flag_class = Some ''flag mod-16 mod-fr'',
            team_score = Some ''0'', rounds_ct = [], rounds_t = [] \<rparr>],
       preview_event = Some ''Cup'', preview_series = Some ''Semi'',
       data_utc_ts = Some ''1700000000'', href = Some ''/200/solo'' \<rparr>"

definition match_c :: match_element where
  "match_c =
     \<lparr> eta_live = True,
       teams =
         [\<lparr> team_name = Some ''Cobra'', flag_class = Some ''flag mod-16 mod-br'',
            team_score = Some ''2'', rounds_ct = [''3''], rounds_t = [''9''] \<rparr>,
          \<lparr> team_name = Some ''Delta'', flag_class = Some ''flag mod-16 mod-jp'',
            team_score = Some ''1'', rounds_ct = [''4''], rounds_t = [''8''] \<rparr>],
       preview_event = Some ''Cup'', preview_series = Some ''Semi'',
       data_utc_ts = Some ''1700000000'', href = Some ''/300/cobra-vs-delta'' \<rparr>"

definition match_d :: match_element where
  "match_d =
     \<lparr> eta_live = False,
       teams =
         [\<lparr> team_name = Some ''Echo'', flag_class = Some ''flag mod-16 mod-kr'',
            team_score = Some '''', rounds_ct = [], rounds_t = [] \<rparr>,
          \<lparr> team_name = Some ''Fox'', flag_class = Some ''flag mod-16 mod-se'',
            team_score = Some '''', rounds_ct = [], rounds_t = [] \<rparr>],
       preview_event = Some ''Cup'', preview_series = Some ''Group'',
       data_utc_ts = Some ''1700003600'', href = Some ''/400/echo-vs-fox'' \<rparr>"

definition sample_site :: world where
  "sample_site =
     \<lparr> http_get = (\<lambda>url i.
         if url = ''https://www.vlr.gg'' then Response 200 ''listing''
         else if url = ''https://www.vlr.gg//300/cobra-vs-delta'' then Response 200 ''detail''
         else RaisesTimeoutError),
       parse_listing = (\<lambda>text. [match_a, match_b, match_c, match_d]),
       parse_detail = (\<lambda>text.
         \<lparr> header_imgs = [Value ''//owcdn.net/c.png'', Value ''//owcdn.net/d.png''],
           live_map_tab = None \<rparr>),
       utc_strftime = (\<lambda>s.
         if s = ''1700000000'' then Some ''2023-11-14 22:13:20''
         else if s = ''1700003600'' then Some ''2023-11-14 23:13:20''
         else None) \<rparr>"

text \<open>The same site when no request succeeds, and when no match is live.\<close>

definition unreachable_site :: world where
  "unreachable_site = sample_site\<lparr>http_get := (\<lambda>url i. RaisesTimeoutError)\<rparr>"

definition quiet_site :: world where
  "quiet_site = sample_site\<lparr>parse_listing := (\<lambda>text. [match_d])\<rparr>"

text \<open>Attempt outcomes for one address: rate limited once, always rate limited, one server error.\<close>

definition rate_limited_once :: "int \<Rightarrow> attempt" where
  "rate_limited_once i = (if i = 0 then Response 429 '''' else Response 200 ''ok'')"

definition rate_limited_always :: "int \<Rightarrow> attempt" where
  "rate_limited_always i = Response 429 ''''"

definition server_error_once :: "int \<Rightarrow> attempt" where
  "server_error_once i = (if i = 0 then Response 500 '''' else Response 200 ''ok'')"

text \<open>An open client with an empty cache.\<close>

definition fresh_client :: "envelope VlrClient" where
  "fresh_client = aenter VlrClient_init"

section \<open>Properties of the stats tracker\<close>

lemma stats_step_cache_counters:
  "cache_hits (stats_step op st) = cache_hits st \<and>
   cache_misses (stats_step op st) = cache_misses st \<or>
   cache_hits (stats_step op st) = 0 \<and> cache_misses (stats_step op st) = 0"
  by (cases op)
     (auto simp: track_request_def get_performance_stats_def reset_performance_stats_def
                 Let_def split: sum.splits raised.splits)

lemma stats_run_cache_counters:
  "cache_hits st = 0 \<and> cache_misses st = 0 \<Longrightarrow>
   cache_hits (stats_run ops st) = 0 \<and> cache_misses (stats_run ops st) = 0"
proof (induction ops arbitrary: st)
  case Nil
  then show ?case by simp
next
  case (Cons op ops)
  from stats_step_cache_counters [of op st] Cons.prems
  have "cache_hits (stats_step op st) = 0 \<and> cache_misses (stats_step op st) = 0"
    by auto
  then show ?case using Cons.IH by simp
qed

lemma stats_step_counts:
  assumes "counts_add_up st" and "0 \<le> successful_requests st" and "counted_op op"
  shows "counts_add_up (stats_step op st) \<and> 0 \<le> successful_requests (stats_step op st)"
  using assms
  by (cases op rule: counted_op.cases)
     (auto simp: track_request_def get_performance_stats_def reset_performance_stats_def
                 counts_add_up_def Let_def)

lemma stats_run_counts:
  "counts_add_up st \<Longrightarrow> 0 \<le> successful_requests st \<Longrightarrow> list_all counted_op ops \<Longrightarrow>
   counts_add_up (stats_run ops st) \<and> 0 \<le> successful_requests (stats_run ops st)"
proof (induction ops arbitrary: st)
  case Nil
  then show ?case by simp
next
  case (Cons op ops)
  have "counts_add_up (stats_step op st) \<and> 0 \<le> successful_requests (stats_step op st)"
    using Cons.prems by (intro stats_step_counts) simp_all
  then show ?case using Cons.IH Cons.prems(3) by simp
qed







text \<open>
  C9. The counters \<open>cache_hits\<close> and \<open>cache_misses\<close> start at 0, no operation
  (a tracked call that returns or raises, reading the stats, resetting them) changes
  them, and so every snapshot read after any serialized run of operations shows both
  as 0.
\<close>

theorem cache_counters_stay_zero:
  "cache_hits performance_stats_init = 0 \<and> cache_misses performance_stats_init = 0 \<and>
   cache_hits (snd (track_request outcome t st)) = cache_hits st \<and>
   cache_misses (snd (track_request outcome t st)) = cache_misses st \<and>
   cache_hits (get_performance_stats st) = cache_hits st \<and>
   cache_misses (get_performance_stats st) = cache_misses st \<and>
   cache_hits (reset_performance_stats st) = 0 \<and>
   cache_misses (reset_performance_stats st) = 0 \<and>
   cache_hits (get_performance_stats (stats_run ops performance_stats_init)) = 0 \<and>
   cache_misses (get_performance_stats (stats_run ops performance_stats_init)) = 0"
proof -
  have init: "cache_hits performance_stats_init = 0 \<and> cache_misses performance_stats_init = 0"
    by (simp add: performance_stats_init_def)
  have track: "cache_hits (snd (track_request outcome t st)) = cache_hits st \<and>
               cache_misses (snd (track_request outcome t st)) = cache_misses st"
    by (simp add: track_request_def Let_def split: sum.splits raised.splits)
  have reset: "cache_hits (reset_performance_stats st) = 0 \<and>
               cache_misses (reset_performance_stats st) = 0"
    by (simp add: reset_performance_stats_def)
  have run: "cache_hits (stats_run ops performance_stats_init) = 0 \<and>
             cache_misses (stats_run ops performance_stats_init) = 0"
    using init by (rule stats_run_cache_counters)
  show ?thesis
    using init track reset run by (simp add: get_performance_stats_def)
qed

text \<open>
  C10, as amended. With tracked calls serialized, \<open>total_requests = successful_requests
  + failed_requests\<close> holds after a reset and in every state reached from a reset by
  reads, resets and tracked calls that return or raise an instance of \<open>Exception\<close>. In
  such a state a tracked call that returns hands its result on and adds 1 to
  \<open>successful_requests\<close>, one that raises an instance of \<open>Exception\<close> re-raises it
  unchanged and adds 1 to \<open>failed_requests\<close>, and both keep the equation. A call that
  ends with a raise outside \<open>Exception\<close> re-raises it unchanged and adds 1 to
  \<open>total_requests\<close> only, so the equation no longer holds after it.
\<close>

theorem track_request_keeps_counts:
  assumes "list_all counted_op ops"
  shows
  "(let st = stats_run ops (reset_performance_stats st0);
        ok = track_request (Inr r) t st;
        ko = track_request (Inl (Exception e) :: raised + 'a) t st;
        kb = track_request (Inl (BaseException b) :: raised + 'a) t st
    in counts_add_up (reset_performance_stats st0) \<and> counts_add_up st \<and>
       fst ok = Inr r \<and>
       successful_requests (snd ok) = successful_requests st + 1 \<and>
       failed_requests (snd ok) = failed_requests st \<and>
       total_requests (snd ok) = total_requests st + 1 \<and>
       counts_add_up (snd ok) \<and>
       fst ko = Inl (Exception e) \<and>
       failed_requests (snd ko) = failed_requests st + 1 \<and>
       successful_requests (snd ko) = successful_requests st \<and>
       total_requests (snd ko) = total_requests st + 1 \<and>
       counts_add_up (snd ko) \<and>
       fst kb = Inl (BaseException b) \<and>
       failed_requests (snd kb) = failed_requests st \<and>
       successful_requests (snd kb) = successful_requests st \<and>
       total_requests (snd kb) = total_requests st + 1 \<and>
       \<not> counts_add_up (snd kb))"
proof -
  define st where "st = stats_run ops (reset_performance_stats st0)"
  have start: "counts_add_up (reset_performance_stats st0)"
    by (simp add: counts_add_up_def reset_performance_stats_def)
  have nonneg0: "0 \<le> successful_requests (reset_performance_stats st0)"
    by (simp add: reset_performance_stats_def)
  have reach: "counts_add_up st \<and> 0 \<le> successful_requests st"
    unfolding st_def using start nonneg0 assms by (rule stats_run_counts)
  then have nz: "successful_requests st + 1 \<noteq> 0" by linarith
  have ok: "track_request (Inr r) t st =
              (Inr r, st\<lparr>total_requests := total_requests st + 1,
                         successful_requests := successful_requests st + 1,
                         average_response_time :=
                           (average_response_time st * of_int (successful_requests st + 1 - 1) + t)
                             / of_int (successful_requests st + 1)\<rparr>)"
    using nz by (simp add: track_request_def Let_def)
  have ko: "track_request (Inl (Exception e) :: raised + 'a) t st =
              (Inl (Exception e), st\<lparr>total_requests := total_requests st + 1,
                         failed_requests := failed_requests st + 1\<rparr>)"
    by (simp add: track_request_def Let_def)
  have kb: "track_request (Inl (BaseException b) :: raised + 'a) t st =
              (Inl (BaseException b), st\<lparr>total_requests := total_requests st + 1\<rparr>)"
    by (simp add: track_request_def Let_def)
  show ?thesis
    using start reach
    unfolding Let_def st_def [symmetric] ok ko kb
    by (simp add: counts_add_up_def)
qed

text \<open>
  A run from a reset with a call that returns, a call that raises an instance of
  \<open>Exception\<close> and a read, followed by calls of the three kinds.
\<close>

theorem track_request_keeps_counts_witness:
  "list_all counted_op
     [Tracked (Inr ()) 1, Tracked (Inl (Exception (OtherException ''boom''))) 2, GetStats] \<and>
   counts_add_up (stats_run
     [Tracked (Inr ()) 1, Tracked (Inl (Exception (OtherException ''boom''))) 2, GetStats]
     (reset_performance_stats performance_stats_init)) \<and>
   counts_add_up (snd (track_request (Inr ()) 3 (stats_run
     [Tracked (Inr ()) 1, Tracked (Inl (Exception (OtherException ''boom''))) 2, GetStats]
     (reset_performance_stats performance_stats_init)))) \<and>
   counts_add_up (snd (track_request (Inl (Exception ZeroDivisionError) :: raised + unit) 3
     (stats_run
       [Tracked (Inr ()) 1, Tracked (Inl (Exception (OtherException ''boom''))) 2, GetStats]
       (reset_performance_stats performance_stats_init)))) \<and>
   \<not> counts_add_up (snd (track_request (Inl (BaseException CancelledError) :: raised + unit) 3
     (stats_run
       [Tracked (Inr ()) 1, Tracked (Inl (Exception (OtherException ''boom''))) 2, GetStats]
       (reset_performance_stats performance_stats_init))))"
proof -
  have counted: "list_all counted_op
     [Tracked (Inr ()) 1, Tracked (Inl (Exception (OtherException ''boom''))) 2, GetStats]"
    by simp
  note calls = track_request_keeps_counts [OF counted, of performance_stats_init "()" 3
      ZeroDivisionError CancelledError, unfolded Let_def]
  show ?thesis
    using counted calls by blast
qed

text \<open>
  C10 as stated fails for a call that raises outside \<open>Exception\<close>: right after a reset,
  a tracked call that ends with \<open>asyncio.CancelledError\<close> re-raises it and leaves
  \<open>total_requests = 1\<close> with both other counters at 0.
\<close>

theorem cancelled_call_breaks_counts:
  "counts_add_up (reset_performance_stats performance_stats_init) \<and>
   fst (track_request (Inl (BaseException CancelledError) :: raised + unit) 1
         (reset_performance_stats performance_stats_init)) = Inl (BaseException CancelledError) \<and>
   total_requests (snd (track_request (Inl (BaseException CancelledError) :: raised + unit) 1
         (reset_performance_stats performance_stats_init))) = 1 \<and>
   successful_requests (snd (track_request (Inl (BaseException CancelledError) :: raised + unit) 1
         (reset_performance_stats performance_stats_init))) = 0 \<and>
   failed_requests (snd (track_request (Inl (BaseException CancelledError) :: raised + unit) 1
         (reset_performance_stats performance_stats_init))) = 0 \<and>
   \<not> counts_add_up (snd (track_request (Inl (BaseException CancelledError) :: raised + unit) 1
         (reset_performance_stats performance_stats_init)))"
  by (simp add: track_request_def reset_performance_stats_def counts_add_up_def Let_def)

section \<open>Properties of the flag token transform\<close>

lemma py_replace_absent:
  "old \<noteq> [] \<Longrightarrow> \<not> has_substring s old \<Longrightarrow> py_replace s old new = s"
  by (induction s) auto

text \<open>
  C4, as amended. On a class string that contains neither \<open>" mod-"\<close> nor \<open>"16"\<close> the
  transform changes nothing, so it is idempotent there; \<open>"mod-us mod-16"\<close> becomes
  \<open>"mod-us_"\<close>; and \<open>"flag mod-us mod-16"\<close> becomes \<open>"flagus_"\<close>: the first replacement
  removes the blank together with \<open>mod-\<close>.
\<close>

theorem flag_transform_fixtures:
  "(\<not> has_substring s '' mod-'' \<and> \<not> has_substring s ''16'' \<longrightarrow>
      flag_transform s = s \<and> flag_transform (flag_transform s) = flag_transform s) \<and>
   flag_transform ''mod-us mod-16'' = ''mod-us_'' \<and>
   flag_transform ''flag mod-us mod-16'' = ''flagus_''"
proof -
  have fixed: "flag_transform s = s"
    if "\<not> has_substring s '' mod-''" and "\<not> has_substring s ''16''"
    using that by (simp add: flag_transform_def py_replace_absent)
  have first: "flag_transform ''mod-us mod-16'' = ''mod-us_''"
    by (simp add: flag_transform_def)
  have second: "flag_transform ''flag mod-us mod-16'' = ''flagus_''"
    by (simp add: flag_transform_def)
  show ?thesis
    using fixed first second by simp
qed

text \<open>The amended statement at the class string \<open>"flag"\<close>, which has neither substring.\<close>

theorem flag_transform_fixtures_witness:
  "\<not> has_substring ''flag'' '' mod-'' \<and> \<not> has_substring ''flag'' ''16'' \<and>
   flag_transform ''flag'' = ''flag'' \<and>
   flag_transform (flag_transform ''flag'') = flag_transform ''flag''"
  using flag_transform_fixtures [of "''flag''"] by simp

text \<open>
  C4 as stated fails in its last part: the class string \<open>"flag mod-us mod-16"\<close> is not
  turned into \<open>"flag us_"\<close>.
\<close>

theorem flag_transform_fixture_counterexample:
  "flag_transform ''flag mod-us mod-16'' \<noteq> ''flag us_''"
  by (simp add: flag_transform_def)

section \<open>Properties of the cache\<close>

lemma fresh_client_miss: "get_from_cache fresh_client key now = None"
  by (simp add: get_from_cache_def is_cache_valid_def fresh_client_def aenter_def VlrClient_init_def)

lemma cached_within_ttl:
  "now - t < timedelta_seconds cache_ttl \<Longrightarrow>
   get_from_cache (set_cache self key payload t) key now = Some payload"
  by (simp add: get_from_cache_def is_cache_valid_def set_cache_def)

text \<open>
  C6. For every key and payload, in any client: a read of the key less than 30 seconds
  after the payload was stored under it returns exactly that payload, and a read 30
  seconds or more after it finds nothing.
\<close>

theorem cache_get_after_put:
  "(now - t < timedelta_seconds 30 \<longrightarrow>
      get_from_cache (set_cache self key payload t) key now = Some payload) \<and>
   (timedelta_seconds 30 \<le> now - t \<longrightarrow>
      get_from_cache (set_cache self key payload t) key now = None)"
proof -
  have entry: "cache (set_cache self key payload t) key =
      Some \<lparr> entry_data = Some payload, entry_timestamp = Some t \<rparr>"
    by (simp add: set_cache_def)
  have valid: "is_cache_valid (set_cache self key payload t) key now \<longleftrightarrow>
      now - t < timedelta_seconds 30"
    by (simp add: is_cache_valid_def entry cache_ttl_def)
  have fresh: "get_from_cache (set_cache self key payload t) key now = Some payload"
    if "now - t < timedelta_seconds 30"
    using that by (simp add: get_from_cache_def valid entry)
  have stale: "get_from_cache (set_cache self key payload t) key now = None"
    if "timedelta_seconds 30 \<le> now - t"
    using that by (simp add: get_from_cache_def valid)
  show ?thesis
    using fresh stale by blast
qed

text \<open>
  A payload stored at second 1 is read back one microsecond before second 31 and is
  gone at second 31.
\<close>

theorem cache_get_after_put_witness:
  "get_from_cache (set_cache fresh_client ''live_matches''
      \<lparr> status = ''success'', message = None, data = Some [no_game_match] \<rparr> 1000000)
      ''live_matches'' 30999999 =
     Some \<lparr> status = ''success'', message = None, data = Some [no_game_match] \<rparr> \<and>
   get_from_cache (set_cache fresh_client ''live_matches''
      \<lparr> status = ''success'', message = None, data = Some [no_game_match] \<rparr> 1000000)
      ''live_matches'' 31000000 = None"
  using
    cache_get_after_put [of 30999999 1000000 fresh_client "''live_matches''"
      "\<lparr> status = ''success'', message = None, data = Some [no_game_match] \<rparr>"]
    cache_get_after_put [of 31000000 1000000 fresh_client "''live_matches''"
      "\<lparr> status = ''success'', message = None, data = Some [no_game_match] \<rparr>"]
  by (simp add: timedelta_seconds_def)

section \<open>Properties of the fetcher\<close>

lemmas site_defs = sample_site_def unreachable_site_def quiet_site_def
  match_a_def match_b_def match_c_def match_d_def

lemmas fetch_defs = make_request_def fresh_client_def aenter_def VlrClient_init_def
  make_request_loop.simps backoff_def

text \<open>
  One turn of the loop that is not the last one: after status 429 the fetcher sleeps
  twice, after another status or an exception once.
\<close>

lemma make_request_loop_rate_limited:
  assumes "attempt < max_retries - 1" and "get attempt = Response 429 text"
  shows "make_request_loop get max_retries attempt evs =
           make_request_loop get max_retries (attempt + 1)
             (evs @ [Request attempt, Sleep (2 ^ nat attempt), Sleep (2 ^ nat attempt)])"
  using assms by (subst make_request_loop.simps) (simp add: backoff_def)

lemma make_request_loop_other_status:
  assumes "attempt < max_retries - 1" and "get attempt = Response code text"
    and "code \<noteq> 200" and "code \<noteq> 429"
  shows "make_request_loop get max_retries attempt evs =
           make_request_loop get max_retries (attempt + 1)
             (evs @ [Request attempt, Sleep (2 ^ nat attempt)])"
  using assms by (subst make_request_loop.simps) (simp add: backoff_def)

lemma make_request_loop_exception:
  assumes "attempt < max_retries - 1"
    and "get attempt = RaisesTimeoutError \<or> get attempt = RaisesClientError"
  shows "make_request_loop get max_retries attempt evs =
           make_request_loop get max_retries (attempt + 1)
             (evs @ [Request attempt, Sleep (2 ^ nat attempt)])"
  using assms by (subst make_request_loop.simps) (auto simp: backoff_def)

text \<open>
  C3. The claim asks for a wait of \<open>2^i\<close> seconds between attempt \<open>i\<close> and attempt
  \<open>i+1\<close> after status 429. With three attempts, a fetch that is rate limited on attempt 0
  sleeps 1 second twice before attempt 1; one that is always rate limited sleeps 1+1
  and 2+2 seconds between the attempts and 4 more seconds after the last one; a server
  error on attempt 0 is followed by a single sleep of 1 second.
\<close>

theorem rate_limit_waits_twice:
  "fst (make_request fresh_client rate_limited_once 3) =
     [Request 0, Sleep 1, Sleep 1, Request 1] \<and>
   fst (make_request fresh_client rate_limited_always 3) =
     [Request 0, Sleep 1, Sleep 1, Request 1, Sleep 2, Sleep 2, Request 2, Sleep 4] \<and>
   fst (make_request fresh_client server_error_once 3) = [Request 0, Sleep 1, Request 1]"
proof -
  have once: "fst (make_request fresh_client rate_limited_once 3) =
      [Request 0, Sleep 1, Sleep 1, Request 1]"
    by (simp add: fetch_defs rate_limited_once_def)
  have always: "fst (make_request fresh_client rate_limited_always 3) =
      [Request 0, Sleep 1, Sleep 1, Request 1, Sleep 2, Sleep 2, Request 2, Sleep 4]"
    by (simp add: fetch_defs rate_limited_always_def)
  have other: "fst (make_request fresh_client server_error_once 3) =
      [Request 0, Sleep 1, Request 1]"
    by (simp add: fetch_defs server_error_once_def)
  show ?thesis
    using once always other by simp
qed

section \<open>Properties of the extractor and the aggregator\<close>

subsection \<open>Dictionaries, single matches, batches\<close>


lemma dict_set_not_empty: "dict_set d k v \<noteq> []"
  by (cases d) (auto split: if_splits)










subsection \<open>The sample site, evaluated\<close>











lemma unreachable_listing:
  "get_live_matches_optimized fresh_client unreachable_site =
     \<lparr> status = ''error'', message = Some ''Failed to fetch live matches'', data = None \<rparr>"
  by (simp add: get_live_matches_optimized_def fetch_defs site_defs)

lemma unreachable_first_call:
  "VlrClient_get_live_matches fresh_client unreachable_site 0 100 =
     (\<lparr> status = ''error'', message = Some ''Failed to fetch live matches'', data = None \<rparr>,
      set_cache fresh_client ''live_matches''
        \<lparr> status = ''error'', message = Some ''Failed to fetch live matches'', data = None \<rparr> 100)"
  by (simp add: VlrClient_get_live_matches_def fresh_client_miss unreachable_listing Let_def)

subsection \<open>No live match\<close>

text \<open>
  C5. When the listing page was fetched (the fetcher returned a non-empty text) and none
  of its match entries is flagged live, the scraper returns status \<open>success\<close> with
  exactly one record, \<open>no_game_match\<close>, and so does the client on a cache miss. That
  record has 20 distinct fields; \<open>klurgecustom\<close> is "no game is live" and it is the only
  field whose value is not the empty string.
\<close>

theorem no_live_match_sentinel:
  assumes "snd (make_request self (http_get w ''https://www.vlr.gg'') 3) = Inr (Some html_content)"
    and "html_content \<noteq> []"
    and "filter eta_live (parse_listing w html_content) = []"
  shows "get_live_matches_optimized self w =
           \<lparr> status = ''success'', message = None, data = Some [no_game_match] \<rparr> \<and>
         map_of no_game_match ''klurgecustom'' = Some ''no game is live'' \<and>
         filter (\<lambda>(k, v). v \<noteq> '''') no_game_match = [(''klurgecustom'', ''no game is live'')] \<and>
         length no_game_match = 20 \<and> distinct (map fst no_game_match) \<and>
         (get_from_cache self ''live_matches'' now_read = None \<longrightarrow>
            fst (VlrClient_get_live_matches self w now_read now_write) =
              \<lparr> status = ''success'', message = None, data = Some [no_game_match] \<rparr>)"
proof -
  have result: "get_live_matches_optimized self w =
           \<lparr> status = ''success'', message = None, data = Some [no_game_match] \<rparr>"
    using assms by (simp add: get_live_matches_optimized_def)
  have client: "fst (VlrClient_get_live_matches self w now_read now_write) =
           \<lparr> status = ''success'', message = None, data = Some [no_game_match] \<rparr>"
    if "get_from_cache self ''live_matches'' now_read = None"
    using that result by (simp add: VlrClient_get_live_matches_def Let_def)
  have marker: "map_of no_game_match ''klurgecustom'' = Some ''no game is live''"
    by (simp add: no_game_match_def)
  have others: "filter (\<lambda>(k, v). v \<noteq> '''') no_game_match = [(''klurgecustom'', ''no game is live'')]"
    by (simp add: no_game_match_def)
  have size: "length no_game_match = 20 \<and> distinct (map fst no_game_match)"
    by (simp add: no_game_match_def)
  show ?thesis using result marker others size client by simp
qed

text \<open>The site without a live match satisfies the hypotheses.\<close>

theorem no_live_match_sentinel_witness:
  "get_live_matches_optimized fresh_client quiet_site =
     \<lparr> status = ''success'', message = None, data = Some [no_game_match] \<rparr> \<and>
   fst (VlrClient_get_live_matches fresh_client quiet_site 0 100) =
     \<lparr> status = ''success'', message = None, data = Some [no_game_match] \<rparr>"
proof -
  have fetched: "snd (make_request fresh_client (http_get quiet_site ''https://www.vlr.gg'') 3) =
      Inr (Some ''listing'')"
    by (simp add: fetch_defs site_defs)
  have nonempty: "''listing'' \<noteq> []" by simp
  have none_live: "filter eta_live (parse_listing quiet_site ''listing'') = []"
    by (simp add: site_defs)
  from no_live_match_sentinel [OF fetched nonempty none_live, of 0 100]
  show ?thesis by (simp add: fresh_client_miss)
qed

subsection \<open>A failing match in a batch\<close>




subsection \<open>A failed listing fetch\<close>

text \<open>
  What the client does on a cache miss, for every site: the result of the scraper is
  stored, whatever its status.
\<close>

lemma miss_result_is_stored:
  "get_from_cache self ''live_matches'' now_read = None \<Longrightarrow>
   VlrClient_get_live_matches self w now_read now_write =
     (get_live_matches_optimized self w,
      set_cache self ''live_matches'' (get_live_matches_optimized self w) now_write)"
  by (simp add: VlrClient_get_live_matches_def Let_def)

lemma failed_listing_fetch_result:
  "fetch_failed (snd (make_request self (http_get w ''https://www.vlr.gg'') 3)) \<Longrightarrow>
   status (get_live_matches_optimized self w) = ''error'' \<and>
   data (get_live_matches_optimized self w) = None"
  by (auto simp: fetch_failed_def get_live_matches_optimized_def split: sum.splits option.splits)

text \<open>
  C1. The claim says that the error result of a failed listing fetch is not stored in
  the cache. With an empty cache and a site that cannot be reached, the call at time 0
  returns the error result and stores it (at time 100 microseconds); five seconds later
  the cache gives that error result for the key, and a second call returns it as a hit
  although the site would answer now.
\<close>

theorem failed_listing_fetch_is_cached:
  "(case VlrClient_get_live_matches fresh_client unreachable_site 0 100 of
      (first_result, client) \<Rightarrow>
        first_result =
          \<lparr> status = ''error'', message = Some ''Failed to fetch live matches'', data = None \<rparr> \<and>
        get_from_cache client ''live_matches'' 5000000 = Some first_result \<and>
        fst (VlrClient_get_live_matches client sample_site 5000000 5000100) = first_result)"
proof -
  have hit: "get_from_cache (set_cache fresh_client ''live_matches'' r 100) ''live_matches'' 5000000 = Some r"
    for r :: envelope
    by (rule cached_within_ttl) (simp add: timedelta_seconds_def cache_ttl_def)
  show ?thesis
    unfolding unreachable_first_call
    by (simp add: hit VlrClient_get_live_matches_def)
qed

text \<open>
  What the endpoint does with a result of the client that has no \<open>data\<close>, as every
  error result of the scraper: it answers with the fixed success result.
\<close>

lemma router_replaces_result_without_data:
  "data (fst (VlrClient_get_live_matches (aenter (get_vlr_client global_client)) w now_read now_write)) = None \<Longrightarrow>
   fst (router_get_live_matches global_client w now_read now_write) =
     \<lparr> status = ''success'', message = Some ''No live matches currently available.'',
       data = Some [] \<rparr>"
  by (cases "VlrClient_get_live_matches (aenter (get_vlr_client global_client)) w now_read now_write")
     (simp add: router_get_live_matches_def)

text \<open>
  C2. The claim says that the endpoint delivers an error result of the client as an
  error envelope. For a site that cannot be reached the client returns the error
  result, and the endpoint answers with status \<open>success\<close>, the message "No live matches
  currently available." and an empty list.
\<close>

theorem failed_fetch_answered_as_success:
  "fst (VlrClient_get_live_matches (aenter (get_vlr_client None)) unreachable_site 0 100) =
     \<lparr> status = ''error'', message = Some ''Failed to fetch live matches'', data = None \<rparr> \<and>
   fst (router_get_live_matches None unreachable_site 0 100) =
     \<lparr> status = ''success'', message = Some ''No live matches currently available.'',
       data = Some [] \<rparr>"
proof -
  have client: "aenter (get_vlr_client None) = fresh_client"
    by (simp add: get_vlr_client_def fresh_client_def)
  show ?thesis
    by (simp add: router_get_live_matches_def client unreachable_first_call)
qed


end
